theory Spec2Isabelle
  imports Complex_Main
begin

section \<open>Entities, the world and the application state\<close>

text \<open>
  The game is \<^verbatim>\<open>app.py\<close>. Its collision handlers receive two entities and ask
  \<^verbatim>\<open>get_collision_direction\<close> for the side of the contact, which answers with one of
  the letters \<^verbatim>\<open>'A'\<close>, \<^verbatim>\<open>'B'\<close>, \<^verbatim>\<open>'L'\<close>, \<^verbatim>\<open>'R'\<close>.
  That function lives in \<^verbatim>\<open>game.util\<close>, which is not part of the sources, and it reads
  only the bounding boxes of the two entities, which no handler moves. Its answer for the pair of
  a handler is therefore an argument of the handler here.
\<close>

datatype direction = Dir_A | Dir_B | Dir_L | Dir_R

text \<open>
  The letter says where the first argument is, seen from the second: \<^verbatim>\<open>'A'\<close> is the
  player above the block on which it lands (\<^verbatim>\<open>Switch.on_hit\<close>: "collided via the top of
  the block", \<^verbatim>\<open>BounceBlock\<close>: "collide with this block from above") and above the
  mushroom it stomps, and with \<^verbatim>\<open>'L'\<close> the player is thrown back to the left. So the first
  entity is touched on the side that faces the second: its bottom for \<^verbatim>\<open>'A'\<close>, its top for
  \<^verbatim>\<open>'B'\<close>, its right side for \<^verbatim>\<open>'L'\<close> and its left side for \<^verbatim>\<open>'R'\<close>.
\<close>

datatype side = Top | Bottom | Left_side | Right_side

definition struck_side :: "direction \<Rightarrow> side" where
  "struck_side d =
     (case d of Dir_A \<Rightarrow> Bottom | Dir_B \<Rightarrow> Top | Dir_L \<Rightarrow> Right_side | Dir_R \<Rightarrow> Left_side)"

datatype py_error = TypeError | AttributeError | KeyError

text \<open>A handler either returns its boolean to the physics engine or raises.\<close>

datatype outcome = Returned bool | Raised py_error

text \<open>
  Entities are objects: a handler that removes a mob from the world can still write to the mob
  afterwards. So an entity is a record carrying its identity, handlers take and give back the
  entities they touch, and the world holds identities only.
\<close>

datatype thing = PlayerT | BlockT nat | MobT nat | ItemT nat

text \<open>
  Modelled from the spec: \<^verbatim>\<open>World\<close> (\<^verbatim>\<open>game.world\<close> is not part of the sources)
  owns the collection of live entities, and removing an entity takes it out of the collection.
  The field \<open>removals\<close> is the history of the removal requests the world has received, each
  with whether the entity was still in the world when the request came.
\<close>

record world =
  things :: "thing list"
  removals :: "(thing \<times> bool) list"

definition remove_thing :: "world \<Rightarrow> thing \<Rightarrow> world" where
  "remove_thing w t =
     w\<lparr>things := removeAll t (things w),
       removals := removals w @ [(t, t \<in> set (things w))]\<rparr>"

definition add_thing :: "world \<Rightarrow> thing \<Rightarrow> world" where
  "add_thing w t = w\<lparr>things := things w @ [t]\<rparr>"

text \<open>
  Modelled from the spec: \<^verbatim>\<open>Player\<close> (\<^verbatim>\<open>player.py\<close> is not part of the sources) has a
  health clamped to \<open>[0, max_health]\<close>, a score, a jumping flag and a velocity; its accessors
  are plain reads and writes of these fields.
\<close>

record player =
  health :: real
  max_health :: real
  score :: int
  jumping :: bool
  velocity :: "real \<times> real"
  position :: "real \<times> real"

definition change_health :: "real \<Rightarrow> player \<Rightarrow> player" where
  "change_health c p = p\<lparr>health := max 0 (min (max_health p) (health p + c))\<rparr>"

definition change_score :: "int \<Rightarrow> player \<Rightarrow> player" where
  "change_score c p = p\<lparr>score := score p + c\<rparr>"

definition reset_score :: "player \<Rightarrow> player" where
  "reset_score p = p\<lparr>score := 0\<rparr>"

definition set_velocity :: "real \<times> real \<Rightarrow> player \<Rightarrow> player" where
  "set_velocity v p = p\<lparr>velocity := v\<rparr>"

definition set_jumping :: "bool \<Rightarrow> player \<Rightarrow> player" where
  "set_jumping j p = p\<lparr>jumping := j\<rparr>"

text \<open>
  Modelled from the spec: \<^verbatim>\<open>Mob\<close> (\<^verbatim>\<open>game.mob\<close> is not part of the sources) has an
  identifier and a signed horizontal speed, the tempo. \<^verbatim>\<open>MushroomMob\<close> is a \<^verbatim>\<open>Mob\<close>
  with identifier \<^verbatim>\<open>'mushroom'\<close> and tempo 45; it does not override \<^verbatim>\<open>on_hit\<close>, and
  the spec gives the inherited \<^verbatim>\<open>on_hit\<close> no effect.
\<close>

record mob =
  mob_ref :: nat
  mob_id :: string
  tempo :: real

definition set_tempo :: "real \<Rightarrow> mob \<Rightarrow> mob" where
  "set_tempo t m = m\<lparr>tempo := t\<rparr>"

definition MushroomMob :: "nat \<Rightarrow> mob" where
  "MushroomMob r = \<lparr>mob_ref = r, mob_id = ''mushroom'', tempo = 45\<rparr>"

definition remove_mob :: "world \<Rightarrow> mob \<Rightarrow> world" where
  "remove_mob w m = remove_thing w (MobT (mob_ref m))"

text \<open>
  Items. \<^verbatim>\<open>Star.collect(self, player)\<close> writes \<^verbatim>\<open>self._player_invincible = True\<close>: called
  on a star it sets an attribute of the star (the field of \<open>Star\<close> below), called on the
  application it sets the application's flag.
  Modelled from the spec: \<^verbatim>\<open>Coin\<close> (\<^verbatim>\<open>game.item\<close> is not part of the sources) adds its
  value to the score when collected.
\<close>

datatype item_kind = Coin int | Star bool

record item =
  item_ref :: nat
  item_id :: string
  item_kind :: item_kind

definition remove_item :: "world \<Rightarrow> item \<Rightarrow> world" where
  "remove_item w i = remove_thing w (ItemT (item_ref i))"

definition add_item :: "world \<Rightarrow> item \<Rightarrow> world" where
  "add_item w i = add_thing w (ItemT (item_ref i))"

fun collect :: "item \<Rightarrow> player \<Rightarrow> item \<times> player" where
  "collect i p =
     (case item_kind i of
        Coin v \<Rightarrow> (i, change_score v p)
      | Star _ \<Rightarrow> (i\<lparr>item_kind := Star True\<rparr>, p))"

subsection \<open>Blocks\<close>

text \<open>
  \<^verbatim>\<open>Switch\<close>: \<^verbatim>\<open>_active\<close> and \<^verbatim>\<open>start\<close> are set by the constructor. A strike from
  above also stores the category table and a fresh, empty physics space in the switch; the two
  flags say whether these attributes have been stored. Times are the readings of
  \<^verbatim>\<open>time.time()\<close>, in seconds.
\<close>

record switch =
  active :: bool
  start :: real
  categories_stored :: bool
  space_stored :: bool

definition Switch :: "real \<Rightarrow> switch" where
  "Switch now = \<lparr>active = True, start = now, categories_stored = False, space_stored = False\<rparr>"

definition switch_on_hit :: "real \<Rightarrow> direction \<Rightarrow> switch \<Rightarrow> switch" where
  "switch_on_hit now d sw =
     (if d \<noteq> Dir_A then sw
      else
        let sw1 = sw\<lparr>categories_stored := True, space_stored := True\<rparr>
        in if active sw1 then sw1\<lparr>active := False, start := now\<rparr> else sw1)"

definition check_time :: "real \<Rightarrow> switch \<Rightarrow> switch" where
  "check_time now sw =
     (if active sw = False then
        (if now - start sw \<ge> 10 then sw\<lparr>active := True\<rparr> else sw)
      else sw)"

definition switch_step :: "real \<Rightarrow> switch \<Rightarrow> switch" where
  "switch_step now sw = check_time now sw"

text \<open>What happens to a switch: strikes by the player and steps of the world, each at a time.\<close>

datatype switch_event = Strike direction real | Tick real

fun event_time :: "switch_event \<Rightarrow> real" where
  "event_time (Strike d t) = t"
| "event_time (Tick t) = t"

fun switch_apply :: "switch \<Rightarrow> switch_event \<Rightarrow> switch" where
  "switch_apply sw (Strike d t) = switch_on_hit t d sw"
| "switch_apply sw (Tick t) = switch_step t sw"

definition switch_run :: "switch \<Rightarrow> switch_event list \<Rightarrow> switch" where
  "switch_run sw evs = foldl switch_apply sw evs"

text \<open>
  The kinds of block. A plain block is a \<^verbatim>\<open>Block\<close> with an identifier (brick, cube,
  tunnel, ...) or a \<^verbatim>\<open>GoalsFlag\<close>, which has the identifier \<^verbatim>\<open>'flagpole'\<close> and
  inherits \<^verbatim>\<open>on_hit\<close>.
  Modelled from the spec: \<^verbatim>\<open>Block.on_hit\<close> and \<^verbatim>\<open>MysteryBlock\<close> (\<^verbatim>\<open>game.block\<close> is
  not part of the sources). A plain block does nothing when hit. A mystery block that is active
  and struck from above spawns its configured items and becomes inactive for good; the items
  it will drop, their number already drawn, are the second argument of \<open>Mystery\<close>.
\<close>

datatype block_kind = Plain | Mystery bool "item list" | Bounce | SwitchB switch

record block =
  block_ref :: nat
  block_id :: string
  block_kind :: block_kind

definition remove_block :: "world \<Rightarrow> block \<Rightarrow> world" where
  "remove_block w b = remove_thing w (BlockT (block_ref b))"

definition bounce_on_hit :: "direction \<Rightarrow> player \<Rightarrow> player" where
  "bounce_on_hit d p = (if d \<noteq> Dir_A then p else set_velocity (0, -200) p)"

fun on_hit :: "real \<Rightarrow> direction \<Rightarrow> world \<Rightarrow> player \<Rightarrow> block \<Rightarrow> world \<times> player \<times> block" where
  "on_hit now d w p b =
     (case block_kind b of
        Plain \<Rightarrow> (w, p, b)
      | Mystery act drops \<Rightarrow>
          (if d \<noteq> Dir_A then (w, p, b)
           else if act then (foldl add_item w drops, p, b\<lparr>block_kind := Mystery False drops\<rparr>)
           else (w, p, b))
      | Bounce \<Rightarrow> (w, bounce_on_hit d p, b)
      | SwitchB sw \<Rightarrow> (w, p, b\<lparr>block_kind := SwitchB (switch_on_hit now d sw)\<rparr>))"

subsection \<open>The application\<close>

text \<open>
  \<^verbatim>\<open>MarioApp\<close>. The attributes \<^verbatim>\<open>_start_invincible\<close> and \<^verbatim>\<open>is_ducking\<close> are not set
  by the constructor: they exist only once \<^verbatim>\<open>player_invincible\<close>, respectively a key
  handler, has run, and reading them before raises \<^verbatim>\<open>AttributeError\<close>.
  \<open>highscores_txt\<close> is the content of the high-score file, \<open>retry_dialogs\<close> counts the
  retry-or-quit dialogs shown so far, and \<open>destroyed\<close> says that \<^verbatim>\<open>quit\<close> has destroyed
  the window. The status display (health bar and score label) only draws and is left out.
\<close>

record app =
  world_of :: world
  player_of :: player
  invincible :: bool
  start_invincible :: "real option"
  is_ducking :: "bool option"
  current_level :: string
  highscores_txt :: string
  retry_dialogs :: nat
  destroyed :: bool

definition BLOCK_SIZE :: real where
  "BLOCK_SIZE = 2 ^ 4"

text \<open>
  Modelled from the spec: \<^verbatim>\<open>World.add_player\<close> puts the player into the world at the given
  position, at rest.
\<close>

definition add_player :: "world \<Rightarrow> player \<Rightarrow> real \<Rightarrow> real \<Rightarrow> world \<times> player" where
  "add_player w p x y = (add_thing w PlayerT, p\<lparr>velocity := (0, 0), position := (x, y)\<rparr>)"

text \<open>
  \<^verbatim>\<open>load_world\<close> and the level files are not part of the sources: the world built from a
  level file is the parameter \<open>lw\<close>.
\<close>

definition reset_world :: "(string \<Rightarrow> world) \<Rightarrow> app \<Rightarrow> string \<Rightarrow> app" where
  "reset_world lw a new_level =
     (let (w, p) = add_player (lw new_level) (player_of a) BLOCK_SIZE BLOCK_SIZE
      in a\<lparr>world_of := w, player_of := reset_score p\<rparr>)"

definition reset_level :: "(string \<Rightarrow> world) \<Rightarrow> app \<Rightarrow> app" where
  "reset_level lw a =
     (let a1 = reset_world lw a (current_level a)
      in a1\<lparr>player_of := (player_of a1)\<lparr>health := max_health (player_of a1)\<rparr>\<rparr>)"

definition quit :: "app \<Rightarrow> app" where
  "quit a = a\<lparr>destroyed := True\<rparr>"

text \<open>\<open>query\<close> is the answer of the dialog, \<^verbatim>\<open>'yes'\<close> or \<^verbatim>\<open>'no'\<close>.\<close>

definition retry :: "(string \<Rightarrow> world) \<Rightarrow> string \<Rightarrow> app \<Rightarrow> app" where
  "retry lw query a =
     (if health (player_of a) = 0.0 then
        let a1 = a\<lparr>retry_dialogs := retry_dialogs a + 1\<rparr>
        in if query = ''yes'' then reset_level lw a1
           else if query = ''no'' then quit a1
           else a1
      else a)"

text \<open>
  The invincibility window. \<^verbatim>\<open>player_invincible\<close> reads the clock twice; \<open>t1\<close> and
  \<open>t2\<close> are the two readings.
\<close>

definition Star_collect :: "app \<Rightarrow> app" where
  "Star_collect a = a\<lparr>invincible := True\<rparr>"

definition player_invincible :: "real \<Rightarrow> real \<Rightarrow> app \<Rightarrow> app" where
  "player_invincible t1 t2 a =
     (let a1 = a\<lparr>start_invincible := Some t1\<rparr>
      in if invincible a1 = True then a1\<lparr>start_invincible := Some t2\<rparr> else a1)"

definition check_invincible :: "real \<Rightarrow> app \<Rightarrow> py_error + app" where
  "check_invincible now a =
     (if invincible a = True then
        (case start_invincible a of
           None \<Rightarrow> Inl AttributeError
         | Some s \<Rightarrow> if now - s \<ge> 10 then Inr (a\<lparr>invincible := False\<rparr>) else Inr a)
      else Inr a)"

text \<open>The poll of every step, run at each of a list of times, stopping at an error.\<close>

fun polls :: "app \<Rightarrow> real list \<Rightarrow> py_error + app" where
  "polls a [] = Inr a"
| "polls a (t # ts) = (case check_invincible t a of Inl e \<Rightarrow> Inl e | Inr a' \<Rightarrow> polls a' ts)"

subsection \<open>Python's \<^verbatim>\<open>str\<close> on integers\<close>

fun str_nat :: "nat \<Rightarrow> string" where
  "str_nat n =
     (if n < 10 then [''0123456789'' ! n]
      else str_nat (n div 10) @ [''0123456789'' ! (n mod 10)])"

declare str_nat.simps [simp del]

definition str_int :: "int \<Rightarrow> string" where
  "str_int i = (if i < 0 then CHR ''-'' # str_nat (nat (- i)) else str_nat (nat i))"

definition newline :: char where
  "newline = CHR 0x0A"

subsection \<open>The collision handlers\<close>

definition handle_mob_collide_block ::
  "app \<Rightarrow> mob \<Rightarrow> block \<Rightarrow> direction \<Rightarrow> app \<times> mob \<times> outcome" where
  "handle_mob_collide_block a m b d =
     (let w1 = (if mob_id m = ''fireball'' then
                  remove_mob
                    (if block_id b = ''brick'' then remove_block (world_of a) b else world_of a) m
                else world_of a);
          m1 = (if d = Dir_L then set_tempo (-35) m else m);
          m2 = (if d = Dir_R then set_tempo 35 m1 else m1)
      in (a\<lparr>world_of := w1\<rparr>, m2, Returned True))"

definition handle_mob_collide_item ::
  "app \<Rightarrow> mob \<Rightarrow> item \<Rightarrow> app \<times> outcome" where
  "handle_mob_collide_item a m i = (a, Returned False)"

text \<open>\<open>d12\<close> is the direction for \<open>(mob1, mob2)\<close> and \<open>d21\<close> the one for \<open>(mob2, mob1)\<close>.\<close>

definition handle_mob_collide_mob ::
  "app \<Rightarrow> mob \<Rightarrow> mob \<Rightarrow> direction \<Rightarrow> direction \<Rightarrow> app \<times> mob \<times> mob \<times> outcome" where
  "handle_mob_collide_mob a mob1 mob2 d12 d21 =
     (let w1 = (if mob_id mob1 = ''fireball'' \<or> mob_id mob2 = ''fireball''
                then remove_mob (remove_mob (world_of a) mob1) mob2 else world_of a);
          mush = (mob_id mob1 = ''mushroom'' \<or> mob_id mob2 = ''mushroom'');
          m1a = (if mush \<and> d12 = Dir_L then set_tempo (-35) mob1 else mob1);
          m1b = (if mush \<and> d12 = Dir_R then set_tempo 35 m1a else m1a);
          m2a = (if mush \<and> d21 = Dir_L then set_tempo (-35) mob2 else mob2);
          m2b = (if mush \<and> d21 = Dir_R then set_tempo 35 m2a else m2a)
      in (a\<lparr>world_of := w1\<rparr>, m1b, m2b, Returned False))"

definition handle_player_collide_item ::
  "real \<Rightarrow> real \<Rightarrow> app \<Rightarrow> item \<Rightarrow> app \<times> item \<times> outcome" where
  "handle_player_collide_item t1 t2 a dropped_item =
     (let (i1, p1) = collect dropped_item (player_of a);
          a1 = a\<lparr>player_of := p1\<rparr>;
          a2 = a1\<lparr>world_of := remove_item (world_of a1) i1\<rparr>;
          a3 = (if item_id i1 = ''star'' then player_invincible t1 t2 (Star_collect a2) else a2)
      in (a3, i1, Returned False))"

text \<open>
  A handler that raises keeps what it has written so far. The two parts of the player-block
  handler give back the state they reach and the error, if they raise.

  The flagpole part: \<open>name\<close> is the answer of the name dialog, \<open>None\<close> when it is
  cancelled; then \<^verbatim>\<open>name + ...\<close> raises \<^verbatim>\<open>TypeError\<close>, after the health has been
  restored and before anything is written.
\<close>

definition flagpole_part ::
  "(string \<Rightarrow> world) \<Rightarrow> string option \<Rightarrow> direction \<Rightarrow> block \<Rightarrow> app
     \<Rightarrow> app \<times> py_error option" where
  "flagpole_part lw name d b a =
     (if block_id b = ''flagpole'' then
        let a1 = (if d = Dir_A
                  then a\<lparr>player_of := (player_of a)\<lparr>health := max_health (player_of a)\<rparr>\<rparr>
                  else a)
        in case name of
             None \<Rightarrow> (a1, Some TypeError)
           | Some n \<Rightarrow>
               let entry = n @ (''  Score: '' @ str_int (score (player_of a1)) @ '' '');
                   a2 = a1\<lparr>highscores_txt := highscores_txt a1 @ (entry @ [newline])\<rparr>;
                   a3 = a2\<lparr>current_level := ''level2.txt''\<rparr>
               in (reset_world lw a3 (current_level a3), None)
      else (a, None))"

definition tunnel_part ::
  "(string \<Rightarrow> world) \<Rightarrow> direction \<Rightarrow> block \<Rightarrow> app \<Rightarrow> app \<times> py_error option" where
  "tunnel_part lw d b a =
     (if block_id b = ''tunnel'' then
        (case is_ducking a of
           None \<Rightarrow> (a, Some AttributeError)
         | Some duck \<Rightarrow>
             if duck = True then
               (if d = Dir_A then (reset_world lw a ''level2.txt'', None) else (a, None))
             else (a, None))
      else (a, None))"

definition handle_player_collide_block ::
  "(string \<Rightarrow> world) \<Rightarrow> real \<Rightarrow> string option \<Rightarrow> app \<Rightarrow> block \<Rightarrow> direction
     \<Rightarrow> app \<times> block \<times> outcome" where
  "handle_player_collide_block lw now name a b d =
     (let (w1, p1, b1) = on_hit now d (world_of a) (player_of a) b;
          a1 = a\<lparr>world_of := w1, player_of := p1\<rparr>;
          a2 = (if d = Dir_A then a1\<lparr>player_of := set_jumping False (player_of a1)\<rparr> else a1);
          (a3, e3) = flagpole_part lw name d b1 a2
      in case e3 of
           Some e \<Rightarrow> (a3, b1, Raised e)
         | None \<Rightarrow>
             let (a4, e4) = tunnel_part lw d b1 a3
             in case e4 of
                  Some e \<Rightarrow> (a4, b1, Raised e)
                | None \<Rightarrow> (a4, b1, Returned True))"

definition handle_player_separate_block ::
  "app \<Rightarrow> block \<Rightarrow> app \<times> block \<times> outcome" where
  "handle_player_separate_block a b = (a, b, Returned True)"

text \<open>
  The player-mob handler: the mob's own \<^verbatim>\<open>on_hit\<close> (no effect), the fireball part, the
  mushroom part (\<open>mushroom_part\<close>), and then \<^verbatim>\<open>retry\<close>.
\<close>

definition fireball_part :: "app \<Rightarrow> mob \<Rightarrow> app" where
  "fireball_part a m =
     (if mob_id m = ''fireball'' then
        (if invincible a = False then a\<lparr>player_of := change_health (-3) (player_of a)\<rparr> else a)
      else a)"

definition mushroom_part :: "app \<Rightarrow> mob \<Rightarrow> direction \<Rightarrow> app \<times> mob" where
  "mushroom_part a m d =
     (if mob_id m = ''mushroom'' then
        let a1 = (if invincible a = True then a\<lparr>world_of := remove_mob (world_of a) m\<rparr> else a)
        in if d = Dir_L then
             (if invincible a1 = False then
                (a1\<lparr>player_of := set_velocity (-100, 0) (change_health (-1) (player_of a1))\<rparr>,
                 set_tempo (-35) m)
              else (a1, m))
           else if d = Dir_R then
             (if invincible a1 = False then
                (a1\<lparr>player_of := set_velocity (100, 0) (change_health (-1) (player_of a1))\<rparr>,
                 set_tempo (-35) m)
              else (a1, m))
           else if d = Dir_A then
             (a1\<lparr>player_of := set_velocity (0, -100) (player_of a1),
                 world_of := remove_mob (world_of a1) m\<rparr>, m)
           else (a1, m)
      else (a, m))"

definition handle_player_collide_mob ::
  "(string \<Rightarrow> world) \<Rightarrow> string \<Rightarrow> app \<Rightarrow> mob \<Rightarrow> direction \<Rightarrow> app \<times> mob \<times> outcome" where
  "handle_player_collide_mob lw query a m d =
     (let a1 = fireball_part a m;
          (a2, m2) = mushroom_part a1 m d
      in (retry lw query a2, m2, Returned True))"

text \<open>
  A run of the game, as far as the player-mob contacts go. Each contact comes with the answer
  the player would give to the dialog. \<^verbatim>\<open>quit\<close> destroys the root window, which ends
  \<^verbatim>\<open>mainloop\<close> and with it \<^verbatim>\<open>main\<close>: the run is over, and the contacts handled are
  those that come while the window lives. \<open>after_damage\<close> is the state of a contact just
  before \<^verbatim>\<open>retry\<close>, and \<open>reaches_zero\<close> counts the contacts of a run in which the health
  goes from above zero to zero.
\<close>

type_synonym contact = "mob \<times> direction \<times> string"

definition after_damage :: "app \<Rightarrow> mob \<Rightarrow> direction \<Rightarrow> app" where
  "after_damage a m d = fst (mushroom_part (fireball_part a m) m d)"

fun play :: "(string \<Rightarrow> world) \<Rightarrow> app \<Rightarrow> contact list \<Rightarrow> app" where
  "play lw a [] = a"
| "play lw a ((m, d, query) # cs) =
     (if destroyed a then a
      else play lw (fst (handle_player_collide_mob lw query a m d)) cs)"

fun reaches_zero :: "(string \<Rightarrow> world) \<Rightarrow> app \<Rightarrow> contact list \<Rightarrow> nat" where
  "reaches_zero lw a [] = 0"
| "reaches_zero lw a ((m, d, query) # cs) =
     (if destroyed a then 0
      else (if 0 < health (player_of a) \<and> health (player_of (after_damage a m d)) = 0
            then 1 else 0)
           + reaches_zero lw (fst (handle_player_collide_mob lw query a m d)) cs)"

section \<open>The configuration file\<close>

text \<open>
  \<^verbatim>\<open>read_config_file\<close> iterates over the lines of the chosen file. Here the lines are the
  argument, as the iteration yields them (with their line ends). Characters are the code
  points below 256, and \<open>isspace\<close> is Python's \<^verbatim>\<open>str.isspace\<close> on them, which is what
  \<^verbatim>\<open>strip()\<close> removes.
\<close>

definition isspace :: "char \<Rightarrow> bool" where
  "isspace c \<longleftrightarrow>
     c \<in> set [CHR 0x09, CHR 0x0A, CHR 0x0B, CHR 0x0C, CHR 0x0D, CHR 0x1C, CHR 0x1D, CHR 0x1E,
              CHR 0x1F, CHR 0x20, CHR 0x85, CHR 0xA0]"

definition strip :: "string \<Rightarrow> string" where
  "strip s = rev (dropWhile isspace (rev (dropWhile isspace s)))"

definition startswith_eq :: "string \<Rightarrow> bool" where
  "startswith_eq s = (case s of [] \<Rightarrow> False | c # _ \<Rightarrow> c = CHR ''='')"

definition endswith_eq :: "string \<Rightarrow> bool" where
  "endswith_eq s = (s \<noteq> [] \<and> last s = CHR ''='')"

text \<open>The test of the first branch, on the stripped line.\<close>

definition is_header :: "string \<Rightarrow> bool" where
  "is_header line \<longleftrightarrow> startswith_eq line \<and> endswith_eq line"

text \<open>\<^verbatim>\<open>line[1:-1]\<close>\<close>

definition slice_1_m1 :: "string \<Rightarrow> string" where
  "slice_1_m1 s = butlast (tl s)"

definition count_colon :: "string \<Rightarrow> nat" where
  "count_colon s = count_list s CHR '':''"

text \<open>\<^verbatim>\<open>line.split(':')\<close> on a line with exactly one colon: the two parts.\<close>

definition split_colon :: "string \<Rightarrow> string \<times> string" where
  "split_colon s = (takeWhile (\<lambda>c. c \<noteq> CHR '':'') s, tl (dropWhile (\<lambda>c. c \<noteq> CHR '':'') s))"

type_synonym config = "string \<rightharpoonup> (string \<rightharpoonup> string)"

text \<open>
  One round of the loop, on the dictionary and the current heading. \<^verbatim>\<open>config[heading]\<close>
  raises \<^verbatim>\<open>KeyError\<close> when the heading is not a key.
\<close>

definition config_line :: "config \<times> string option \<Rightarrow> string \<Rightarrow> py_error + config \<times> string option" where
  "config_line st raw =
     (let config = fst st; heading = snd st; line = strip raw
      in if startswith_eq line \<and> endswith_eq line then
           let h = slice_1_m1 line in Inr (config(h \<mapsto> Map.empty), Some h)
         else if count_colon line = 1 \<and> heading \<noteq> None then
           (case heading of
              None \<Rightarrow> Inr (config, heading)
            | Some h \<Rightarrow>
                (case config h of
                   None \<Rightarrow> Inl KeyError
                 | Some sect \<Rightarrow>
                     let (name, val) = split_colon line
                     in Inr (config(h \<mapsto> sect(strip name \<mapsto> strip val)), heading)))
         else Inr (config, heading))"

fun config_lines :: "config \<times> string option \<Rightarrow> string list \<Rightarrow> py_error + config \<times> string option" where
  "config_lines st [] = Inr st"
| "config_lines st (l # ls) =
     (case config_line st l of Inl e \<Rightarrow> Inl e | Inr st' \<Rightarrow> config_lines st' ls)"

definition read_config_state :: "string list \<Rightarrow> py_error + config \<times> string option" where
  "read_config_state ls = config_lines (Map.empty, None) ls"

definition read_config_file :: "string list \<Rightarrow> py_error + config" where
  "read_config_file ls = (case read_config_state ls of Inl e \<Rightarrow> Inl e | Inr st \<Rightarrow> Inr (fst st))"

text \<open>
  What the loop keeps true: the current heading, once set, is a key of the dictionary.
\<close>

definition config_inv :: "config \<times> string option \<Rightarrow> bool" where
  "config_inv st \<longleftrightarrow> (\<forall>h. snd st = Some h \<longrightarrow> h \<in> dom (fst st))"

section \<open>Concrete entities and states\<close>

text \<open>A small level, used where a property is checked at a concrete contact.\<close>

definition world0 :: world where
  "world0 = \<lparr>things = [PlayerT, BlockT 0, MobT 1, ItemT 2], removals = []\<rparr>"

definition level2 :: "string \<Rightarrow> world" where
  "level2 f = \<lparr>things = [BlockT 7], removals = []\<rparr>"

definition player0 :: player where
  "player0 = \<lparr>health = 20, max_health = 20, score = 7, jumping = True,
      velocity = (75, 10), position = (48, 32)\<rparr>"

definition app0 :: app where
  "app0 = \<lparr>world_of = world0, player_of = player0, invincible = False,
      start_invincible = None, is_ducking = Some False, current_level = ''level1.txt'',
      highscores_txt = [], retry_dialogs = 0, destroyed = False\<rparr>"

definition app1 :: app where
  "app1 = app0\<lparr>player_of := player0\<lparr>health := 1\<rparr>\<rparr>"

definition brick0 :: block where
  "brick0 = \<lparr>block_ref = 0, block_id = ''brick'', block_kind = Plain\<rparr>"

definition flag0 :: block where
  "flag0 = \<lparr>block_ref = 0, block_id = ''flagpole'', block_kind = Plain\<rparr>"

definition star0 :: item where
  "star0 = \<lparr>item_ref = 2, item_id = ''star'', item_kind = Star False\<rparr>"

section \<open>Mobs against blocks\<close>

lemma mob_block_returns:
  "snd (snd (handle_mob_collide_block a m b d)) = Returned True"
  by (simp add: handle_mob_collide_block_def Let_def)

lemma mob_block_tempo_by_letter:
  "tempo (fst (snd (handle_mob_collide_block a m b d))) =
     (if d = Dir_L then - 35 else if d = Dir_R then 35 else tempo m)"
  by (simp add: handle_mob_collide_block_def set_tempo_def Let_def)

text \<open>
  Claim C2: in every mob-block contact, a lateral collision leaves the mob with a tempo of the
  fixed magnitude 35 whose sign is opposite to the side on which the mob is struck: struck on
  its left side (the block is to its left, direction \<^verbatim>\<open>'R'\<close>) it gets the positive tempo
  +35 and moves right, struck on its right side (direction \<^verbatim>\<open>'L'\<close>) it gets the negative
  tempo -35 and moves left. This holds for every mob, fireballs included, and every block.
\<close>

theorem mob_block_tempo_opposite_struck_side:
  "(struck_side d = Left_side \<longrightarrow>
      tempo (fst (snd (handle_mob_collide_block a m b d))) = 35 \<and>
      0 < tempo (fst (snd (handle_mob_collide_block a m b d)))) \<and>
   (struck_side d = Right_side \<longrightarrow>
      tempo (fst (snd (handle_mob_collide_block a m b d))) = - 35 \<and>
      tempo (fst (snd (handle_mob_collide_block a m b d))) < 0) \<and>
   (struck_side d = Left_side \<or> struck_side d = Right_side \<longrightarrow>
      \<bar>tempo (fst (snd (handle_mob_collide_block a m b d)))\<bar> = 35)"
  by (cases d) (simp_all add: struck_side_def mob_block_tempo_by_letter)

theorem mob_block_tempo_opposite_struck_side_witness:
  "struck_side Dir_R = Left_side \<and>
   tempo (fst (snd (handle_mob_collide_block app0 (MushroomMob 1) brick0 Dir_R))) = 35 \<and>
   struck_side Dir_L = Right_side \<and>
   tempo (fst (snd (handle_mob_collide_block app0 (MushroomMob 1) brick0 Dir_L))) = - 35"
proof -
  have s: "struck_side Dir_R = Left_side" "struck_side Dir_L = Right_side"
    by (simp_all add: struck_side_def)
  from mob_block_tempo_opposite_struck_side [of Dir_R app0 "MushroomMob 1" brick0]
    mob_block_tempo_opposite_struck_side [of Dir_L app0 "MushroomMob 1" brick0] s
  show ?thesis by simp
qed

section \<open>The switch\<close>

lemma switch_inactive_run:
  "\<not> active sw \<Longrightarrow> start sw = t0 \<Longrightarrow> \<forall>e\<in>set evs. event_time e - t0 < 10 \<Longrightarrow>
     \<not> active (switch_run sw evs) \<and> start (switch_run sw evs) = t0"
proof (induction evs arbitrary: sw)
  case Nil
  then show ?case by (simp add: switch_run_def)
next
  case (Cons e evs)
  have step: "\<not> active (switch_apply sw e) \<and> start (switch_apply sw e) = t0"
    using Cons.prems
    by (cases e) (auto simp: switch_on_hit_def switch_step_def check_time_def Let_def)
  have run: "switch_run sw (e # evs) = switch_run (switch_apply sw e) evs"
    by (simp add: switch_run_def)
  from Cons.IH [of "switch_apply sw e"] step Cons.prems(3) run
  show ?case by auto
qed

text \<open>
  Claim C4: a strike from above on an active switch, at time \<open>t0\<close>, makes it inactive and
  records \<open>t0\<close> as its start. From there, whatever strikes (from any side) and steps follow
  at times less than 10 seconds after \<open>t0\<close>, the switch is inactive with start \<open>t0\<close>, and
  the first step at a time 10 seconds or more after \<open>t0\<close> makes it active again. A second
  strike from above while it is inactive changes nothing in the switch.
\<close>

theorem switch_cycle:
  "active sw \<Longrightarrow>
   (let sw1 = switch_on_hit t0 Dir_A sw in
      active sw1 = False \<and> start sw1 = t0 \<and>
      (\<forall>evs. (\<forall>e\<in>set evs. event_time e - t0 < 10) \<longrightarrow>
          active (switch_run sw1 evs) = False \<and> start (switch_run sw1 evs) = t0 \<and>
          (\<forall>t. 10 \<le> t - t0 \<longrightarrow> active (switch_step t (switch_run sw1 evs)) = True)) \<and>
      (\<forall>t. switch_on_hit t Dir_A sw1 = sw1))"
proof -
  assume a: "active sw"
  define sw1 where "sw1 = switch_on_hit t0 Dir_A sw"
  have s1: "\<not> active sw1" "start sw1 = t0"
    using a by (simp_all add: sw1_def switch_on_hit_def Let_def)
  have again: "switch_on_hit t Dir_A sw1 = sw1" for t
    using a by (simp add: sw1_def switch_on_hit_def Let_def)
  have run: "active (switch_run sw1 evs) = False \<and> start (switch_run sw1 evs) = t0 \<and>
          (\<forall>t. 10 \<le> t - t0 \<longrightarrow> active (switch_step t (switch_run sw1 evs)) = True)"
    if h: "\<forall>e\<in>set evs. event_time e - t0 < 10" for evs
  proof -
    from switch_inactive_run [OF s1 h]
    have r: "\<not> active (switch_run sw1 evs)" "start (switch_run sw1 evs) = t0" by simp_all
    then show ?thesis by (simp add: switch_step_def check_time_def)
  qed
  show ?thesis
    unfolding Let_def sw1_def [symmetric] using s1 again run by blast
qed

theorem switch_cycle_witness:
  "active (Switch 0) \<and>
   active (switch_on_hit 5 Dir_A (Switch 0)) = False \<and>
   start (switch_on_hit 5 Dir_A (Switch 0)) = 5 \<and>
   active (switch_run (switch_on_hit 5 Dir_A (Switch 0))
             [Tick 6, Strike Dir_A 7, Tick 14]) = False \<and>
   start (switch_run (switch_on_hit 5 Dir_A (Switch 0))
             [Tick 6, Strike Dir_A 7, Tick 14]) = 5 \<and>
   active (switch_step 15 (switch_run (switch_on_hit 5 Dir_A (Switch 0))
             [Tick 6, Strike Dir_A 7, Tick 14])) = True \<and>
   switch_on_hit 7 Dir_A (switch_on_hit 5 Dir_A (Switch 0)) = switch_on_hit 5 Dir_A (Switch 0)"
proof -
  have a: "active (Switch 0)" by (simp add: Switch_def)
  have h: "\<forall>e\<in>set [Tick 6, Strike Dir_A 7, Tick 14]. event_time e - 5 < 10" by simp
  have t: "(10::real) \<le> 15 - 5" by simp
  from switch_cycle [OF a, of 5, unfolded Let_def] h t a
  show ?thesis by blast
qed

section \<open>The star and the invincibility window\<close>

lemma star_pickup:
  "item_id star = ''star'' \<Longrightarrow>
     invincible (fst (handle_player_collide_item t1 t2 a star)) = True \<and>
     start_invincible (fst (handle_player_collide_item t1 t2 a star)) = Some t2"
  by (simp add: handle_player_collide_item_def player_invincible_def Star_collect_def Let_def
      split: item_kind.splits)

lemma polls_inside_window:
  "invincible a \<Longrightarrow> start_invincible a = Some s \<Longrightarrow> \<forall>t\<in>set ts. t - s < 10 \<Longrightarrow>
     polls a ts = Inr a"
  by (induction ts) (simp_all add: check_invincible_def)

lemma poll_after_window:
  "invincible a \<Longrightarrow> start_invincible a = Some s \<Longrightarrow> 10 \<le> t - s \<Longrightarrow>
     check_invincible t a = Inr (a\<lparr>invincible := False\<rparr>)"
  by (simp add: check_invincible_def)

lemma check_invincible_clears_only_late:
  "invincible a \<Longrightarrow> check_invincible t a = Inr a' \<Longrightarrow> \<not> invincible a' \<Longrightarrow>
     \<exists>s. start_invincible a = Some s \<and> 10 \<le> t - s"
  by (auto simp: check_invincible_def split: option.splits if_splits)

text \<open>No collision handler clears the flag: only the poll does.\<close>

lemma reset_world_invincible:
  "invincible (reset_world lw a l) = invincible a"
  by (simp add: reset_world_def case_prod_beta)

lemma handlers_keep_invincible:
  "invincible (fst (handle_mob_collide_block a m b d)) = invincible a"
  "invincible (fst (handle_mob_collide_mob a m1 m2 d12 d21)) = invincible a"
  "invincible (fst (handle_mob_collide_item a m i)) = invincible a"
  "invincible (fst (handle_player_collide_mob lw query a m d)) = invincible a"
  "invincible (fst (handle_player_collide_block lw now name a b d)) = invincible a"
  "invincible a \<Longrightarrow> invincible (fst (handle_player_collide_item t1 t2 a i))"
  by (simp_all add: handle_mob_collide_block_def handle_mob_collide_mob_def
      handle_mob_collide_item_def handle_player_collide_mob_def fireball_part_def
      mushroom_part_def retry_def reset_level_def quit_def handle_player_collide_block_def
      flagpole_part_def tunnel_part_def handle_player_collide_item_def player_invincible_def
      Star_collect_def reset_world_invincible Let_def case_prod_beta
      split: option.splits)

text \<open>
  Claim C5: when the player picks up a star, the handler leaves the invincibility flag true and
  the activation time recorded (the second clock reading \<open>t2\<close> of \<^verbatim>\<open>player_invincible\<close>).
  Polls at times less than 10 seconds after the activation change nothing, so the flag stays
  true; a poll 10 seconds or more after it clears the flag. A second star picked up while the
  player is invincible puts its own time \<open>t4\<close> in place of the recorded one: the window
  then ends 10 seconds after \<open>t4\<close>, and no duration is added up.
\<close>

theorem star_invincibility:
  "item_id star = ''star'' \<Longrightarrow>
   (let a1 = fst (handle_player_collide_item t1 t2 a star) in
      invincible a1 = True \<and> start_invincible a1 = Some t2 \<and>
      (\<forall>ts. (\<forall>t\<in>set ts. t - t2 < 10) \<longrightarrow> polls a1 ts = Inr a1) \<and>
      (\<forall>t. 10 \<le> t - t2 \<longrightarrow> check_invincible t a1 = Inr (a1\<lparr>invincible := False\<rparr>)) \<and>
      (\<forall>star2 t3 t4. item_id star2 = ''star'' \<longrightarrow>
         (let a2 = fst (handle_player_collide_item t3 t4 a1 star2) in
            invincible a2 = True \<and> start_invincible a2 = Some t4 \<and>
            (\<forall>ts. (\<forall>t\<in>set ts. t - t4 < 10) \<longrightarrow> polls a2 ts = Inr a2) \<and>
            (\<forall>t. 10 \<le> t - t4 \<longrightarrow>
               check_invincible t a2 = Inr (a2\<lparr>invincible := False\<rparr>)))))"
proof -
  assume star: "item_id star = ''star''"
  have window: "invincible b = True \<and> start_invincible b = Some u \<and>
      (\<forall>ts. (\<forall>t\<in>set ts. t - u < 10) \<longrightarrow> polls b ts = Inr b) \<and>
      (\<forall>t. 10 \<le> t - u \<longrightarrow> check_invincible t b = Inr (b\<lparr>invincible := False\<rparr>))"
    if "b = fst (handle_player_collide_item u0 u c i)" and "item_id i = ''star''"
    for b c i u0 u
  proof -
    from star_pickup [OF that(2), of u0 u c] that(1)
    have p: "invincible b" "start_invincible b = Some u" by simp_all
    show ?thesis
      using p polls_inside_window [OF p] poll_after_window [OF p] by simp
  qed
  show ?thesis
    unfolding Let_def using window [OF refl star] window [OF refl] by blast
qed

theorem star_invincibility_witness:
  "item_id star0 = ''star'' \<and>
   invincible (fst (handle_player_collide_item 3 4 app0 star0)) = True \<and>
   start_invincible (fst (handle_player_collide_item 3 4 app0 star0)) = Some 4 \<and>
   polls (fst (handle_player_collide_item 3 4 app0 star0)) [5, 9, 13] =
     Inr (fst (handle_player_collide_item 3 4 app0 star0)) \<and>
   check_invincible 14 (fst (handle_player_collide_item 3 4 app0 star0)) =
     Inr ((fst (handle_player_collide_item 3 4 app0 star0))\<lparr>invincible := False\<rparr>) \<and>
   start_invincible (fst (handle_player_collide_item 8 9
      (fst (handle_player_collide_item 3 4 app0 star0)) star0)) = Some 9 \<and>
   polls (fst (handle_player_collide_item 8 9
      (fst (handle_player_collide_item 3 4 app0 star0)) star0)) [14, 18] =
     Inr (fst (handle_player_collide_item 8 9
      (fst (handle_player_collide_item 3 4 app0 star0)) star0))"
proof -
  have s: "item_id star0 = ''star''" by (simp add: star0_def)
  have h1: "\<forall>t\<in>set [5, 9, 13 :: real]. t - 4 < 10" by simp
  have h2: "(10::real) \<le> 14 - 4" by simp
  have h3: "\<forall>t\<in>set [14, 18 :: real]. t - 9 < 10" by simp
  from star_invincibility [OF s, of 3 4 app0, unfolded Let_def] s h1 h2 h3
  show ?thesis by blast
qed

section \<open>Reading the configuration\<close>

lemma config_line_inv:
  assumes "config_inv st"
  shows "\<exists>st'. config_line st l = Inr st' \<and> config_inv st' \<and>
     (snd st' \<noteq> None \<longleftrightarrow> snd st \<noteq> None \<or> is_header (strip l))"
proof (cases st)
  case (Pair config heading)
  show ?thesis
  proof (cases "is_header (strip l)")
    case True
    then show ?thesis
      by (simp add: Pair config_inv_def config_line_def is_header_def Let_def)
  next
    case False
    then show ?thesis using assms
      by (cases heading)
        (auto simp: Pair config_inv_def config_line_def is_header_def Let_def
          split: prod.splits)
  qed
qed

lemma config_lines_inv:
  "config_inv st \<Longrightarrow> \<exists>st'. config_lines st ls = Inr st' \<and> config_inv st' \<and>
     (snd st' \<noteq> None \<longleftrightarrow> snd st \<noteq> None \<or> (\<exists>x\<in>set ls. is_header (strip x)))"
proof (induction ls arbitrary: st)
  case Nil
  then show ?case by simp
next
  case (Cons l ls)
  from config_line_inv [OF Cons.prems, of l] obtain st1 where
    1: "config_line st l = Inr st1" "config_inv st1"
       "snd st1 \<noteq> None \<longleftrightarrow> snd st \<noteq> None \<or> is_header (strip l)" by blast
  from Cons.IH [OF 1(2)] obtain st2 where
    2: "config_lines st1 ls = Inr st2" "config_inv st2"
       "snd st2 \<noteq> None \<longleftrightarrow> snd st1 \<noteq> None \<or> (\<exists>x\<in>set ls. is_header (strip x))" by blast
  show ?case using 1 2 by auto
qed

lemma config_lines_append:
  "config_lines st (xs @ ys) =
     (case config_lines st xs of Inl e \<Rightarrow> Inl e | Inr st' \<Rightarrow> config_lines st' ys)"
  by (induction xs arbitrary: st) (auto split: sum.splits)

lemma config_line_plain:
  "config_inv (config, heading) \<Longrightarrow> \<not> is_header (strip l) \<Longrightarrow>
   config_line (config, heading) l =
     (if count_colon (strip l) = 1 \<and> heading \<noteq> None
      then Inr (config(the heading \<mapsto>
             (the (config (the heading)))
               (strip (fst (split_colon (strip l))) \<mapsto> strip (snd (split_colon (strip l))))),
             heading)
      else Inr (config, heading))"
  by (auto simp: config_inv_def config_line_def is_header_def Let_def
      split: option.splits prod.splits)

lemma count_list_dropWhile:
  "\<not> P c \<Longrightarrow> count_list (dropWhile P s) c = count_list s c"
  by (induction s) auto

lemma count_list_rev_eq: "count_list (rev s) c = count_list s c"
  by (induction s) auto

lemma count_colon_strip: "count_colon (strip l) = count_colon l"
proof -
  have c: "\<not> isspace CHR '':''" by (simp add: isspace_def)
  show ?thesis
    by (simp add: count_colon_def strip_def count_list_rev_eq
        count_list_dropWhile [of isspace, OF c])
qed

text \<open>
  Claim C9, as the code has it. Reading never raises: after any lines \<open>pre\<close> the parser
  holds a dictionary and a heading, and the heading is set exactly when one of these lines was
  a section header (stripped, it starts and ends with \<^verbatim>\<open>'='\<close>). A next line \<open>l\<close>
  that is not itself a section header contributes a key-value entry, the stripped name and
  value around its colon in the current section, if and only if it contains exactly one colon
  and the heading is set; otherwise it is skipped: no error, and the dictionary and the heading
  are as before.
\<close>

theorem read_config_line:
  "\<exists>config heading.
     read_config_state pre = Inr (config, heading) \<and>
     (heading \<noteq> None \<longleftrightarrow> (\<exists>x\<in>set pre. is_header (strip x))) \<and>
     (\<not> is_header (strip l) \<longrightarrow>
        read_config_state (pre @ [l]) =
          (if count_colon l = 1 \<and> heading \<noteq> None
           then Inr (config(the heading \<mapsto>
                  (the (config (the heading)))
                    (strip (fst (split_colon (strip l))) \<mapsto>
                     strip (snd (split_colon (strip l))))), heading)
           else Inr (config, heading)))"
proof -
  have i0: "config_inv (Map.empty, None)" by (simp add: config_inv_def)
  from config_lines_inv [OF i0, of pre] obtain config heading where
    st: "config_lines (Map.empty, None) pre = Inr (config, heading)"
        "config_inv (config, heading)"
        "heading \<noteq> None \<longleftrightarrow> (\<exists>x\<in>set pre. is_header (strip x))"
    by (metis prod.collapse snd_conv)
  have "read_config_state (pre @ [l]) = config_line (config, heading) l"
    by (simp add: read_config_state_def config_lines_append st(1) split: sum.splits)
  with config_line_plain [OF st(2), of l] st(1,3) show ?thesis
    by (auto simp: read_config_state_def count_colon_strip)
qed

lemmas config_eval = read_config_file_def read_config_state_def config_line_def strip_def
  isspace_def startswith_eq_def endswith_eq_def is_header_def slice_1_m1_def count_colon_def
  split_colon_def newline_def Let_def

theorem read_config_line_witness:
  "read_config_state [''=World='', '' gravity : 300 ''] =
     Inr ([''World'' \<mapsto> [''gravity'' \<mapsto> ''300'']], Some ''World'') \<and>
   read_config_state [''=World='', ''gravity 300''] =
     Inr ([''World'' \<mapsto> Map.empty], Some ''World'') \<and>
   read_config_state [''gravity : 300''] = Inr (Map.empty, None)"
proof -
  have e: "read_config_state [''=World=''] = Inr ([''World'' \<mapsto> Map.empty], Some ''World'')"
    "read_config_state [] = Inr (Map.empty, None)"
    by (simp_all add: config_eval)
  have n: "\<not> is_header (strip '' gravity : 300 '')" "\<not> is_header (strip ''gravity 300'')"
    "\<not> is_header (strip ''gravity : 300'')"
    by (simp_all add: config_eval)
  have c: "count_colon '' gravity : 300 '' = 1" "count_colon ''gravity 300'' \<noteq> 1"
    by (simp_all add: config_eval)
  have s: "strip (fst (split_colon (strip '' gravity : 300 ''))) = ''gravity''"
    "strip (snd (split_colon (strip '' gravity : 300 ''))) = ''300''"
    by (simp_all add: config_eval)
  from read_config_line [of "[''=World='']" "'' gravity : 300 ''"] e(1) n(1) c(1) s
  have 1: "read_config_state [''=World='', '' gravity : 300 ''] =
     Inr ([''World'' \<mapsto> [''gravity'' \<mapsto> ''300'']], Some ''World'')"
    by auto
  from read_config_line [of "[''=World='']" "''gravity 300''"] e(1) n(2) c(2)
  have 2: "read_config_state [''=World='', ''gravity 300''] =
     Inr ([''World'' \<mapsto> Map.empty], Some ''World'')"
    by auto
  from read_config_line [of "[]" "''gravity : 300''"] e(2) n(3)
  have 3: "read_config_state [''gravity : 300''] = Inr (Map.empty, None)"
    by auto
  from 1 2 3 show ?thesis by simp
qed

text \<open>
  Claim C9 as stated fails for a line that is itself shaped like a header: the line
  \<^verbatim>\<open>=k:v=\<close> has exactly one colon and comes after the header \<^verbatim>\<open>=A=\<close>, and it
  contributes no key-value entry: the first branch takes it as the header of a new, empty
  section \<^verbatim>\<open>k:v\<close>.
\<close>

theorem read_config_header_colon_counterexample:
  "is_header (strip ''=A='') \<and> count_colon ''=k:v='' = 1 \<and>
   read_config_file [''=A='', ''=k:v=''] =
     Inr [''A'' \<mapsto> Map.empty, ''k:v'' \<mapsto> Map.empty]"
  by (simp add: config_eval)

lemma read_config_file_total: "\<exists>config. read_config_file ls = Inr config"
proof -
  have "config_inv (Map.empty, None)" by (simp add: config_inv_def)
  from config_lines_inv [OF this, of ls] show ?thesis
    by (auto simp: read_config_file_def read_config_state_def)
qed

section \<open>The player against a mushroom\<close>

lemmas player_mob_eval = handle_player_collide_mob_def fireball_part_def mushroom_part_def
  retry_def reset_level_def reset_world_def add_player_def add_thing_def quit_def
  change_health_def set_velocity_def set_tempo_def reset_score_def remove_mob_def
  remove_thing_def MushroomMob_def app0_def player0_def world0_def level2_def BLOCK_SIZE_def
  Let_def

lemma mushroom_lateral:
  "mob_id m = ''mushroom'' \<Longrightarrow> invincible a = False \<Longrightarrow> d = Dir_L \<or> d = Dir_R \<Longrightarrow>
   1 \<le> health (player_of a) \<Longrightarrow> health (player_of a) \<le> max_health (player_of a) \<Longrightarrow>
     health (player_of (fst (mushroom_part a m d))) = health (player_of a) - 1 \<and>
     velocity (player_of (fst (mushroom_part a m d))) = (if d = Dir_L then (- 100, 0) else (100, 0)) \<and>
     world_of (fst (mushroom_part a m d)) = world_of a \<and>
     tempo (snd (mushroom_part a m d)) = - 35"
  by (auto simp: mushroom_part_def change_health_def set_velocity_def set_tempo_def Let_def)

lemma mushroom_stomp:
  "mob_id m = ''mushroom'' \<Longrightarrow>
     MobT (mob_ref m) \<notin> set (things (world_of (fst (mushroom_part a m Dir_A)))) \<and>
     velocity (player_of (fst (mushroom_part a m Dir_A))) = (0, - 100) \<and>
     health (player_of (fst (mushroom_part a m Dir_A))) = health (player_of a)"
  by (simp add: mushroom_part_def set_velocity_def remove_mob_def remove_thing_def Let_def)

text \<open>
  Claim C1 at a mushroom that already moves left (tempo -35), met sideways by a player with
  20 health who is not invincible: the player loses exactly 1 health and is knocked back
  (velocity -100 for \<^verbatim>\<open>'L'\<close>, +100 for \<^verbatim>\<open>'R'\<close>), but the mushroom leaves with the
  tempo -35 it came with, for both sides: the sign of its tempo does not flip, and it does not
  depend on the side the player came from.
\<close>

theorem mushroom_lateral_tempo_not_reversed:
  "tempo ((MushroomMob 1)\<lparr>tempo := - 35\<rparr>) = - 35 \<and>
   handle_player_collide_mob level2 ''yes'' app0 ((MushroomMob 1)\<lparr>tempo := - 35\<rparr>) Dir_L =
     (app0\<lparr>player_of := player0\<lparr>health := 19, velocity := (- 100, 0)\<rparr>\<rparr>,
      (MushroomMob 1)\<lparr>tempo := - 35\<rparr>, Returned True) \<and>
   handle_player_collide_mob level2 ''yes'' app0 ((MushroomMob 1)\<lparr>tempo := - 35\<rparr>) Dir_R =
     (app0\<lparr>player_of := player0\<lparr>health := 19, velocity := (100, 0)\<rparr>\<rparr>,
      (MushroomMob 1)\<lparr>tempo := - 35\<rparr>, Returned True)"
  by (simp add: player_mob_eval)

text \<open>
  Claim C10: when the player is invincible and meets a mushroom with direction \<^verbatim>\<open>'A'\<close>,
  the mushroom part of the handler asks the world twice to remove this mushroom, and the second
  request finds it already removed. The whole handler does the same whenever the player's
  health is not zero (at zero health \<^verbatim>\<open>retry\<close> may replace the world afterwards).
\<close>

theorem mushroom_removed_twice:
  "invincible a = True \<Longrightarrow> mob_id m = ''mushroom'' \<Longrightarrow>
     removals (world_of (fst (mushroom_part a m Dir_A))) =
       removals (world_of a) @
         [(MobT (mob_ref m), MobT (mob_ref m) \<in> set (things (world_of a))),
          (MobT (mob_ref m), False)] \<and>
     (health (player_of a) \<noteq> 0 \<longrightarrow>
        removals (world_of (fst (handle_player_collide_mob lw query a m Dir_A))) =
          removals (world_of a) @
            [(MobT (mob_ref m), MobT (mob_ref m) \<in> set (things (world_of a))),
             (MobT (mob_ref m), False)])"
  by (simp add: handle_player_collide_mob_def fireball_part_def mushroom_part_def retry_def
      set_velocity_def remove_mob_def remove_thing_def Let_def)

theorem mushroom_removed_twice_witness:
  "invincible (app0\<lparr>invincible := True\<rparr>) = True \<and> mob_id (MushroomMob 1) = ''mushroom'' \<and>
   health (player_of (app0\<lparr>invincible := True\<rparr>)) \<noteq> 0 \<and>
   removals (world_of (app0\<lparr>invincible := True\<rparr>)) = [] \<and>
   removals (world_of (fst (handle_player_collide_mob level2 ''no''
       (app0\<lparr>invincible := True\<rparr>) (MushroomMob 1) Dir_A))) =
     [(MobT 1, True), (MobT 1, False)]"
proof -
  have h: "invincible (app0\<lparr>invincible := True\<rparr>) = True" "mob_id (MushroomMob 1) = ''mushroom''"
    "health (player_of (app0\<lparr>invincible := True\<rparr>)) \<noteq> 0"
    by (simp_all add: app0_def player0_def MushroomMob_def)
  have e: "removals (world_of (app0\<lparr>invincible := True\<rparr>)) = []"
    "MobT (mob_ref (MushroomMob 1)) \<in> set (things (world_of (app0\<lparr>invincible := True\<rparr>)))"
    "mob_ref (MushroomMob 1) = 1"
    by (simp_all add: app0_def world0_def MushroomMob_def)
  from mushroom_removed_twice [OF h(1,2), of level2 "''no''"] h e
  show ?thesis by simp
qed

lemma retry_dialogs_parts:
  "retry_dialogs (fireball_part a m) = retry_dialogs a"
  "retry_dialogs (fst (mushroom_part a m d)) = retry_dialogs a"
  by (simp_all add: fireball_part_def mushroom_part_def Let_def)

lemma max_health_after_damage:
  "max_health (player_of (after_damage a m d)) = max_health (player_of a)"
  by (simp add: after_damage_def mushroom_part_def fireball_part_def change_health_def
      set_velocity_def Let_def)

lemma destroyed_after_damage:
  "destroyed (after_damage a m d) = destroyed a"
  by (simp add: after_damage_def mushroom_part_def fireball_part_def Let_def)

lemma dialogs_after_damage:
  "retry_dialogs (after_damage a m d) = retry_dialogs a"
  by (simp add: after_damage_def mushroom_part_def fireball_part_def Let_def)

lemma health_after_damage:
  "0 < health (player_of a) \<Longrightarrow> 0 \<le> health (player_of (after_damage a m d))"
  by (simp add: after_damage_def mushroom_part_def fireball_part_def change_health_def
      set_velocity_def Let_def)

lemma handler_is_retry:
  "fst (handle_player_collide_mob lw query a m d) = retry lw query (after_damage a m d)"
  by (simp add: handle_player_collide_mob_def after_damage_def Let_def case_prod_beta)

lemma retry_yes:
  "health (player_of a) = 0 \<Longrightarrow>
     health (player_of (retry lw ''yes'' a)) = max_health (player_of a) \<and>
     max_health (player_of (retry lw ''yes'' a)) = max_health (player_of a) \<and>
     destroyed (retry lw ''yes'' a) = destroyed a \<and>
     retry_dialogs (retry lw ''yes'' a) = retry_dialogs a + 1"
  by (simp add: retry_def reset_level_def reset_world_def add_player_def reset_score_def Let_def)

lemma retry_no:
  "health (player_of a) = 0 \<Longrightarrow>
     destroyed (retry lw ''no'' a) = True \<and>
     retry_dialogs (retry lw ''no'' a) = retry_dialogs a + 1"
  by (simp add: retry_def quit_def Let_def)

lemma retry_alive:
  "health (player_of a) \<noteq> 0 \<Longrightarrow> retry lw query a = a"
  by (simp add: retry_def)

lemma play_counts:
  "\<not> destroyed a \<Longrightarrow> 0 < health (player_of a) \<Longrightarrow> 0 < max_health (player_of a) \<Longrightarrow>
   \<forall>c\<in>set cs. snd (snd c) = ''yes'' \<or> snd (snd c) = ''no'' \<Longrightarrow>
     retry_dialogs (play lw a cs) = retry_dialogs a + reaches_zero lw a cs"
proof (induction cs arbitrary: a)
  case Nil
  then show ?case by simp
next
  case (Cons c cs)
  obtain m d query where c: "c = (m, d, query)" by (cases c) auto
  let ?b = "after_damage a m d"
  let ?a' = "fst (handle_player_collide_mob lw query a m d)"
  have q: "query = ''yes'' \<or> query = ''no''" using Cons.prems(4) c by simp
  have rest: "\<forall>c\<in>set cs. snd (snd c) = ''yes'' \<or> snd (snd c) = ''no''"
    using Cons.prems(4) by simp
  have a': "?a' = retry lw query ?b" by (rule handler_is_retry)
  show ?case
  proof (cases "health (player_of ?b) = 0")
    case False
    then have same: "?a' = ?b" using a' by (simp add: retry_alive)
    have pos: "0 < health (player_of ?b)"
      using False health_after_damage [OF Cons.prems(2), of m d] by simp
    have "retry_dialogs (play lw ?b cs) = retry_dialogs ?b + reaches_zero lw ?b cs"
      using Cons.IH [of ?b] Cons.prems(1,3) pos rest
      by (simp add: destroyed_after_damage max_health_after_damage)
    then show ?thesis
      using c Cons.prems(1) False same by (simp add: dialogs_after_damage)
  next
    case True
    from q show ?thesis
    proof
      assume y: "query = ''yes''"
      from retry_yes [OF True, of lw] a' y
      have r: "health (player_of ?a') = max_health (player_of a)"
        "max_health (player_of ?a') = max_health (player_of a)"
        "destroyed ?a' = destroyed a" "retry_dialogs ?a' = retry_dialogs a + 1"
        by (simp_all add: max_health_after_damage destroyed_after_damage dialogs_after_damage)
      have "retry_dialogs (play lw ?a' cs) = retry_dialogs ?a' + reaches_zero lw ?a' cs"
        using Cons.IH [of ?a'] r Cons.prems(1,3) rest by simp
      then show ?thesis
        using c Cons.prems(1,2) True r by simp
    next
      assume n: "query = ''no''"
      from retry_no [OF True, of lw] a' n
      have r: "destroyed ?a'" "retry_dialogs ?a' = retry_dialogs a + 1"
        by (simp_all add: dialogs_after_damage)
      have stop: "play lw ?a' cs = ?a'" "reaches_zero lw ?a' cs = 0"
        using r(1) by (cases cs; auto)+
      show ?thesis
        using c Cons.prems(1,2) True r stop by simp
    qed
  qed
qed


lemma play_stops: "destroyed a \<Longrightarrow> play lw a cs = a"
  by (cases cs) auto

text \<open>
  Claim C8: \<^verbatim>\<open>retry\<close> shows the retry-or-quit dialog exactly once when the player's
  health equals 0 and not at all otherwise, in which case it changes nothing. The player-mob
  handler, the one caller of \<^verbatim>\<open>retry\<close> and the one place where health goes down,
  therefore shows the dialog once when the health after the contact is exactly 0 and never
  while it is above 0; it returns \<^verbatim>\<open>True\<close> and does not raise. The decision ends the
  occurrence: on \<^verbatim>\<open>'yes'\<close> the level is reset and the health is back at its maximum, on
  \<^verbatim>\<open>'no'\<close> the window is destroyed and the run is over. So over any run that starts with
  the window alive and a health above zero, the number of dialogs shown is exactly the number
  of times the health has reached zero.
\<close>

theorem retry_decision:
  "retry_dialogs (retry lw query a) =
     retry_dialogs a + (if health (player_of a) = 0 then 1 else 0) \<and>
   (health (player_of a) \<noteq> 0 \<longrightarrow> retry lw query a = a) \<and>
   retry_dialogs (fst (handle_player_collide_mob lw query a m d)) =
     retry_dialogs a +
       (if health (player_of (fst (mushroom_part (fireball_part a m) m d))) = 0 then 1 else 0) \<and>
   snd (snd (handle_player_collide_mob lw query a m d)) = Returned True \<and>
   (health (player_of a) = 0 \<longrightarrow>
      health (player_of (retry lw ''yes'' a)) = max_health (player_of a) \<and>
      destroyed (retry lw ''yes'' a) = destroyed a \<and>
      destroyed (retry lw ''no'' a) = True) \<and>
   (destroyed a \<longrightarrow> play lw a cs = a) \<and>
   (\<not> destroyed a \<and> 0 < health (player_of a) \<and> 0 < max_health (player_of a) \<and>
    (\<forall>c\<in>set cs. snd (snd c) = ''yes'' \<or> snd (snd c) = ''no'') \<longrightarrow>
      retry_dialogs (play lw a cs) = retry_dialogs a + reaches_zero lw a cs)"
proof -
  have 1: "retry_dialogs (retry lw query a) =
     retry_dialogs a + (if health (player_of a) = 0 then 1 else 0)"
    by (simp add: retry_def reset_level_def reset_world_def quit_def Let_def case_prod_beta)
  have 2: "health (player_of a) \<noteq> 0 \<longrightarrow> retry lw query a = a"
    by (simp add: retry_def)
  have 3: "retry_dialogs (fst (handle_player_collide_mob lw query a m d)) =
     retry_dialogs a +
       (if health (player_of (fst (mushroom_part (fireball_part a m) m d))) = 0 then 1 else 0)"
    by (simp add: handle_player_collide_mob_def retry_def reset_level_def reset_world_def
        quit_def retry_dialogs_parts Let_def case_prod_beta)
  have 4: "snd (snd (handle_player_collide_mob lw query a m d)) = Returned True"
    by (simp add: handle_player_collide_mob_def Let_def case_prod_beta)
  have 5: "health (player_of a) = 0 \<longrightarrow>
      health (player_of (retry lw ''yes'' a)) = max_health (player_of a) \<and>
      destroyed (retry lw ''yes'' a) = destroyed a \<and>
      destroyed (retry lw ''no'' a) = True"
    using retry_yes [of a lw] retry_no [of a lw] by simp
  have 6: "destroyed a \<longrightarrow> play lw a cs = a"
    by (simp add: play_stops)
  have 7: "\<not> destroyed a \<and> 0 < health (player_of a) \<and> 0 < max_health (player_of a) \<and>
    (\<forall>c\<in>set cs. snd (snd c) = ''yes'' \<or> snd (snd c) = ''no'') \<longrightarrow>
      retry_dialogs (play lw a cs) = retry_dialogs a + reaches_zero lw a cs"
    using play_counts [of a cs lw] by blast
  from 1 2 3 4 5 6 7 show ?thesis by blast
qed

lemmas play_eval = app1_def after_damage_def player_mob_eval

theorem retry_decision_witness:
  "health (player_of app0) \<noteq> 0 \<and> retry level2 ''yes'' app0 = app0 \<and>
   retry_dialogs (fst (handle_player_collide_mob level2 ''yes'' app0 (MushroomMob 1) Dir_L)) = 0 \<and>
   health (player_of (fst (mushroom_part (fireball_part app1 (MushroomMob 1))
      (MushroomMob 1) Dir_L))) = 0 \<and>
   retry_dialogs (fst (handle_player_collide_mob level2 ''yes'' app1 (MushroomMob 1) Dir_L)) = 1 \<and>
   reaches_zero level2 app1
     [(MushroomMob 1, Dir_L, ''yes''), (MushroomMob 1, Dir_L, ''yes'')] = 1 \<and>
   retry_dialogs (play level2 app1
     [(MushroomMob 1, Dir_L, ''yes''), (MushroomMob 1, Dir_L, ''yes'')]) = 1 \<and>
   reaches_zero level2 app1
     [(MushroomMob 1, Dir_L, ''no''), (MushroomMob 1, Dir_L, ''no'')] = 1 \<and>
   retry_dialogs (play level2 app1
     [(MushroomMob 1, Dir_L, ''no''), (MushroomMob 1, Dir_L, ''no'')]) = 1 \<and>
   destroyed (fst (handle_player_collide_mob level2 ''no'' app1 (MushroomMob 1) Dir_L)) = True"
proof -
  have h: "health (player_of app0) \<noteq> 0" by (simp add: app0_def player0_def)
  have z: "health (player_of (fst (mushroom_part (fireball_part app1 (MushroomMob 1))
      (MushroomMob 1) Dir_L))) = 0"
    "health (player_of (fst (mushroom_part (fireball_part app0 (MushroomMob 1))
      (MushroomMob 1) Dir_L))) \<noteq> 0"
    "retry_dialogs app0 = 0" "retry_dialogs app1 = 0"
    by (simp_all add: play_eval)
  have pre: "\<not> destroyed app1" "0 < health (player_of app1)" "0 < max_health (player_of app1)"
    by (simp_all add: play_eval)
  have q1: "\<forall>c\<in>set [(MushroomMob 1, Dir_L, ''yes''), (MushroomMob 1, Dir_L, ''yes'')].
      snd (snd c) = ''yes'' \<or> snd (snd c) = ''no''"
    by simp
  have q2: "\<forall>c\<in>set [(MushroomMob 1, Dir_L, ''no''), (MushroomMob 1, Dir_L, ''no'')].
      snd (snd c) = ''yes'' \<or> snd (snd c) = ''no''"
    by simp
  have r1: "reaches_zero level2 app1
     [(MushroomMob 1, Dir_L, ''yes''), (MushroomMob 1, Dir_L, ''yes'')] = 1"
    by (simp add: play_eval)
  have r2: "reaches_zero level2 app1
     [(MushroomMob 1, Dir_L, ''no''), (MushroomMob 1, Dir_L, ''no'')] = 1"
    by (simp add: play_eval)
  have d: "destroyed (fst (handle_player_collide_mob level2 ''no'' app1 (MushroomMob 1) Dir_L)) = True"
    by (simp add: play_eval)
  note t0 = retry_decision [of level2 "''yes''" app0 "MushroomMob 1" Dir_L "[]"]
  note t1 = retry_decision [of level2 "''yes''" app1 "MushroomMob 1" Dir_L
      "[(MushroomMob 1, Dir_L, ''yes''), (MushroomMob 1, Dir_L, ''yes'')]"]
  note t2 = retry_decision [of level2 "''yes''" app1 "MushroomMob 1" Dir_L
      "[(MushroomMob 1, Dir_L, ''no''), (MushroomMob 1, Dir_L, ''no'')]"]
  have p1: "retry_dialogs (play level2 app1
     [(MushroomMob 1, Dir_L, ''yes''), (MushroomMob 1, Dir_L, ''yes'')]) = 1"
    using t1 pre q1 r1 z(4) by simp
  have p2: "retry_dialogs (play level2 app1
     [(MushroomMob 1, Dir_L, ''no''), (MushroomMob 1, Dir_L, ''no'')]) = 1"
    using t2 pre q2 r2 z(4) by simp
  from t0 t1 h z r1 r2 p1 p2 d show ?thesis by simp
qed

section \<open>The player against a block\<close>

lemma on_hit_keeps:
  "block_id (snd (snd (on_hit now d w p b))) = block_id b"
  "health (fst (snd (on_hit now d w p b))) = health p"
  "max_health (fst (snd (on_hit now d w p b))) = max_health p"
  "score (fst (snd (on_hit now d w p b))) = score p"
  "jumping (fst (snd (on_hit now d w p b))) = jumping p"
  by (simp_all add: bounce_on_hit_def set_velocity_def split: block_kind.splits)

lemma reset_world_fields:
  "world_of (reset_world lw a l) = add_thing (lw l) PlayerT"
  "health (player_of (reset_world lw a l)) = health (player_of a)"
  "max_health (player_of (reset_world lw a l)) = max_health (player_of a)"
  "jumping (player_of (reset_world lw a l)) = jumping (player_of a)"
  "score (player_of (reset_world lw a l)) = 0"
  "highscores_txt (reset_world lw a l) = highscores_txt a"
  "current_level (reset_world lw a l) = current_level a"
  by (simp_all add: reset_world_def add_player_def reset_score_def)

lemma flagpole_part_jumping:
  "jumping (player_of (fst (flagpole_part lw name d b a))) = jumping (player_of a)"
  by (simp add: flagpole_part_def reset_world_fields Let_def split: option.splits)

lemma tunnel_part_jumping:
  "jumping (player_of (fst (tunnel_part lw d b a))) = jumping (player_of a)"
  by (simp add: tunnel_part_def reset_world_fields split: option.splits)

text \<open>
  Claim C3, as the code has it: on a contact with a flagpole from any side, once the player has
  given a name, one line \<^verbatim>\<open><name>  Score: <score> \<close> with a line end is appended to the
  high-score file, and the world is replaced by one built from a level file with the player
  added, the same whatever the old world held, so nothing of the old world remains; the
  handler returns \<^verbatim>\<open>True\<close>. The health is restored to the maximum when the contact is from
  above, and only then. Which level the new world is built from is left open here.
\<close>

theorem flagpole_contact:
  "block_id b = ''flagpole'' \<Longrightarrow>
   (let r = handle_player_collide_block lw now (Some n) a b d in
      highscores_txt (fst r) =
        highscores_txt a @ n @ ''  Score: '' @ str_int (score (player_of a)) @ '' '' @ [newline] \<and>
      (\<exists>l. world_of (fst r) = add_thing (lw l) PlayerT) \<and>
      (\<forall>w. world_of (fst (handle_player_collide_block lw now (Some n) (a\<lparr>world_of := w\<rparr>) b d)) =
           world_of (fst r)) \<and>
      health (player_of (fst r)) =
        (if d = Dir_A then max_health (player_of a) else health (player_of a)) \<and>
      snd (snd r) = Returned True)"
proof -
  assume f: "block_id b = ''flagpole''"
  have main: "highscores_txt (fst (handle_player_collide_block lw now (Some n) a' b d)) =
        highscores_txt a' @ n @ ''  Score: '' @ str_int (score (player_of a')) @ '' '' @ [newline] \<and>
      world_of (fst (handle_player_collide_block lw now (Some n) a' b d)) =
        add_thing (lw ''level2.txt'') PlayerT \<and>
      health (player_of (fst (handle_player_collide_block lw now (Some n) a' b d))) =
        (if d = Dir_A then max_health (player_of a') else health (player_of a')) \<and>
      snd (snd (handle_player_collide_block lw now (Some n) a' b d)) = Returned True" for a'
  proof -
    obtain w1 p1 b1 where oh: "on_hit now d (world_of a') (player_of a') b = (w1, p1, b1)"
      by (metis prod_cases3)
    from on_hit_keeps [of now d "world_of a'" "player_of a'" b] oh f
    have k: "block_id b1 = ''flagpole''" "health p1 = health (player_of a')"
      "max_health p1 = max_health (player_of a')" "score p1 = score (player_of a')"
      by simp_all
    have nt: "block_id b1 \<noteq> ''tunnel''" using k(1) by simp
    show ?thesis
      using k nt oh
      by (simp add: handle_player_collide_block_def flagpole_part_def tunnel_part_def
          reset_world_fields set_jumping_def Let_def)
  qed
  have ex: "\<exists>l. world_of (fst (handle_player_collide_block lw now (Some n) a b d)) =
      add_thing (lw l) PlayerT"
    using main [of a] by blast
  have indep: "world_of (fst (handle_player_collide_block lw now (Some n) (a\<lparr>world_of := w\<rparr>) b d)) =
      world_of (fst (handle_player_collide_block lw now (Some n) a b d))" for w
    using main [of a] main [of "a\<lparr>world_of := w\<rparr>"] by simp
  show ?thesis
    unfolding Let_def using main [of a] ex indep by simp
qed

lemma str_int_7: "str_int 7 = ''7''"
  by (simp add: str_int_def str_nat.simps)

lemmas player_block_eval = handle_player_collide_block_def flagpole_part_def tunnel_part_def
  reset_world_def add_player_def add_thing_def reset_score_def set_jumping_def str_int_7
  app0_def player0_def world0_def level2_def flag0_def brick0_def BLOCK_SIZE_def Let_def

theorem flagpole_contact_witness:
  "block_id flag0 = ''flagpole'' \<and>
   highscores_txt (fst (handle_player_collide_block level2 0 (Some ''Al'')
      (app0\<lparr>player_of := player0\<lparr>health := 12\<rparr>\<rparr>) flag0 Dir_A)) = ''Al  Score: 7 '' @ [newline] \<and>
   things (world_of (fst (handle_player_collide_block level2 0 (Some ''Al'')
      (app0\<lparr>player_of := player0\<lparr>health := 12\<rparr>\<rparr>) flag0 Dir_A))) = [BlockT 7, PlayerT] \<and>
   health (player_of (fst (handle_player_collide_block level2 0 (Some ''Al'')
      (app0\<lparr>player_of := player0\<lparr>health := 12\<rparr>\<rparr>) flag0 Dir_A))) = 20"
proof -
  have f: "block_id flag0 = ''flagpole''" by (simp add: flag0_def)
  have e: "highscores_txt (app0\<lparr>player_of := player0\<lparr>health := 12\<rparr>\<rparr>) = []"
    "score (player_of (app0\<lparr>player_of := player0\<lparr>health := 12\<rparr>\<rparr>)) = 7"
    "max_health (player_of (app0\<lparr>player_of := player0\<lparr>health := 12\<rparr>\<rparr>)) = 20"
    "\<And>l. add_thing (level2 l) PlayerT = \<lparr>things = [BlockT 7, PlayerT], removals = []\<rparr>"
    by (simp_all add: app0_def player0_def level2_def add_thing_def)
  from flagpole_contact [OF f, of level2 0 "''Al''" "app0\<lparr>player_of := player0\<lparr>health := 12\<rparr>\<rparr>"
      Dir_A, unfolded Let_def] f e
  show ?thesis by (auto simp: str_int_7)
qed

text \<open>
  Claim C3 as stated fails: a contact with the flagpole from the side (direction \<^verbatim>\<open>'L'\<close>)
  also appends the high-score line and replaces the world by a newly built one.
\<close>

theorem flagpole_side_contact_counterexample:
  "highscores_txt app0 = [] \<and> things (world_of app0) = [PlayerT, BlockT 0, MobT 1, ItemT 2] \<and>
   highscores_txt (fst (handle_player_collide_block level2 0 (Some ''Al'') app0 flag0 Dir_L)) =
     ''Al  Score: 7 '' @ [newline] \<and>
   things (world_of (fst (handle_player_collide_block level2 0 (Some ''Al'') app0 flag0 Dir_L))) =
     [BlockT 7, PlayerT]"
  by (simp add: player_block_eval)

text \<open>
  Claim C6, as the code has it: the begin-contact handler of player and block leaves the
  jumping flag cleared after a contact from above, whatever the block is and also when the
  handler raises later on; the separate-contact handler changes nothing and returns
  \<^verbatim>\<open>True\<close>.
\<close>

theorem landing_clears_jumping:
  "jumping (player_of (fst (handle_player_collide_block lw now name a b Dir_A))) = False \<and>
   handle_player_separate_block a b = (a, b, Returned True)"
proof -
  obtain w1 p1 b1 where oh: "on_hit now Dir_A (world_of a) (player_of a) b = (w1, p1, b1)"
    by (metis prod_cases3)
  have "jumping (player_of (fst (handle_player_collide_block lw now name a b Dir_A))) = False"
    using oh
    by (simp add: handle_player_collide_block_def case_prod_beta Let_def set_jumping_def
        flagpole_part_jumping tunnel_part_jumping split: option.splits)
  then show ?thesis by (simp add: handle_player_separate_block_def)
qed

text \<open>
  Claim C6 as stated fails in its second half: the separate-contact handler does not touch the
  jumping flag. A flag that is set stays set, and the flag cleared by a landing on a brick stays
  cleared when the player leaves the brick.
\<close>

theorem separate_keeps_jumping_counterexample:
  "jumping (player_of app0) = True \<and>
   jumping (player_of (fst (handle_player_separate_block app0 brick0))) = True \<and>
   jumping (player_of (fst (handle_player_collide_block level2 0 None app0 brick0 Dir_A))) = False \<and>
   jumping (player_of (fst (handle_player_separate_block
      (fst (handle_player_collide_block level2 0 None app0 brick0 Dir_A)) brick0))) = False"
  by (simp add: player_block_eval handle_player_separate_block_def)

section \<open>What the handlers return\<close>

lemma passthrough_handlers:
  "snd (snd (handle_player_collide_item t1 t2 a i)) = Returned False"
  "snd (snd (snd (handle_mob_collide_mob a m1 m2 d12 d21))) = Returned False"
  "snd (handle_mob_collide_item a m i) = Returned False"
  by (simp_all add: handle_player_collide_item_def handle_mob_collide_mob_def
      handle_mob_collide_item_def Let_def case_prod_beta)

lemma solid_handlers:
  "snd (snd (handle_player_collide_mob lw query a m d)) = Returned True"
  "snd (snd (handle_mob_collide_block a m b d)) = Returned True"
  by (simp_all add: handle_player_collide_mob_def handle_mob_collide_block_def
      Let_def case_prod_beta)

lemma player_block_returns:
  assumes "block_id b = ''flagpole'' \<longrightarrow> name \<noteq> None"
    and "block_id b = ''tunnel'' \<longrightarrow> is_ducking a \<noteq> None"
  shows "snd (snd (handle_player_collide_block lw now name a b d)) = Returned True"
proof -
  obtain w1 p1 b1 where oh: "on_hit now d (world_of a) (player_of a) b = (w1, p1, b1)"
    by (metis prod_cases3)
  from on_hit_keeps(1) [of now d "world_of a" "player_of a" b] oh
  have k: "block_id b1 = block_id b" by simp
  show ?thesis
  proof (cases "block_id b = ''flagpole''")
    case True
    with assms(1) obtain n where "name = Some n" by auto
    with True k oh show ?thesis
      by (simp add: handle_player_collide_block_def flagpole_part_def tunnel_part_def Let_def)
  next
    case False
    show ?thesis
    proof (cases "block_id b = ''tunnel''")
      case True
      with assms(2) obtain duck where "is_ducking a = Some duck" by auto
      with True False k oh show ?thesis
        by (simp add: handle_player_collide_block_def flagpole_part_def tunnel_part_def Let_def)
    next
      case nt: False
      with False k oh show ?thesis
        by (simp add: handle_player_collide_block_def flagpole_part_def tunnel_part_def Let_def)
    qed
  qed
qed

lemma tunnel_before_any_key_raises:
  "snd (snd (handle_player_collide_block lw now name (a\<lparr>is_ducking := None\<rparr>)
      \<lparr>block_ref = r, block_id = ''tunnel'', block_kind = Plain\<rparr> d)) = Raised AttributeError"
  by (simp add: handle_player_collide_block_def flagpole_part_def tunnel_part_def Let_def)

text \<open>
  Claim C7 at a contact with the flagpole from above where the name dialog is cancelled: the
  player-block handler does not return \<^verbatim>\<open>True\<close>, it raises \<^verbatim>\<open>TypeError\<close> (the jumping
  flag is cleared by then, and the health is already at its maximum of 20). Every other entry
  of the table holds (\<open>passthrough_handlers\<close>, \<open>solid_handlers\<close>), and the player-block
  handler returns \<^verbatim>\<open>True\<close> wherever it does not raise (\<open>player_block_returns\<close>).
\<close>

theorem flagpole_cancel_raises:
  "handle_player_collide_block level2 0 None app0 flag0 Dir_A =
     (app0\<lparr>player_of := player0\<lparr>jumping := False\<rparr>\<rparr>, flag0, Raised TypeError)"
  by (simp add: player_block_eval)

end
